theory Spec2Isabelle
  imports
    Complex_Main
    "HOL-Library.AList"
    "HOL-Library.Char_ord"
    "HOL-Library.List_Lexorder"
begin

section \<open>The alert manager of \<^verbatim>\<open>Hazard_Detection/alert_system.py\<close>\<close>

text \<open>
  The development embeds the classes \<^verbatim>\<open>AlertSeverity\<close>, \<^verbatim>\<open>AlertChannel\<close>,
  \<^verbatim>\<open>AlertRecipient\<close>, \<^verbatim>\<open>Alert\<close> and \<^verbatim>\<open>AlertManager\<close>.

  Conventions of the embedding:
  \<^item> a \<^verbatim>\<open>datetime\<close> is the number of microseconds since midnight of day one of the
    calendar (naive datetimes, as \<^verbatim>\<open>datetime.now()\<close> returns them), a
    \<^verbatim>\<open>timedelta\<close> a number of microseconds; both are integers;
  \<^item> every call of \<^verbatim>\<open>datetime.now()\<close> is a parameter \<open>now\<close> of the function;
  \<^item> Python strings are \<open>string\<close>, compared lexicographically character by character,
    as Python compares \<^verbatim>\<open>str\<close>;
  \<^item> \<^verbatim>\<open>Alert\<close> objects are shared by reference between the active dictionary, the
    history list and the queue, so the manager keeps references (natural numbers) and the
    objects live in a store \<open>objects\<close>;
  \<^item> an exception is a value of type \<open>py_error\<close>; a function that may raise after it
    has mutated state returns the state reached together with \<open>Some\<close> error;
  \<^item> a method is one step of the model. The source runs the worker, the timers and the
    callers in threads of their own and holds no lock; for \<^verbatim>\<open>acknowledge_alert\<close>,
    whose two halves another thread can separate, the halves are given as steps too.
\<close>

subsection \<open>Enumerations\<close>

datatype AlertSeverity = LOW | MEDIUM | HIGH | CRITICAL

fun severity_value :: "AlertSeverity \<Rightarrow> int" where
  "severity_value LOW = 1"
| "severity_value MEDIUM = 2"
| "severity_value HIGH = 3"
| "severity_value CRITICAL = 4"

fun severity_name :: "AlertSeverity \<Rightarrow> string" where
  "severity_name LOW = ''LOW''"
| "severity_name MEDIUM = ''MEDIUM''"
| "severity_name HIGH = ''HIGH''"
| "severity_name CRITICAL = ''CRITICAL''"

datatype py_error = KeyError string | TypeError | ValueError

text \<open>\<^verbatim>\<open>AlertSeverity(v)\<close>: the member with value \<open>v\<close>, \<^verbatim>\<open>ValueError\<close> when there is none.\<close>

definition AlertSeverity_of_value :: "int \<Rightarrow> py_error + AlertSeverity" where
  "AlertSeverity_of_value v =
     (if v = 1 then Inr LOW
      else if v = 2 then Inr MEDIUM
      else if v = 3 then Inr HIGH
      else if v = 4 then Inr CRITICAL
      else Inl ValueError)"

datatype AlertChannel =
  EMAIL | SMS | PUSH | WEBHOOK | SLACK | DISCORD | TELEGRAM | PAGERDUTY | CONSOLE

subsection \<open>Dates and their formatting\<close>

type_synonym datetime = int
type_synonym timedelta = int

definition hour_of :: "datetime \<Rightarrow> nat" where
  "hour_of t = nat ((t div 3600000000) mod 24)"

definition minute_of :: "datetime \<Rightarrow> nat" where
  "minute_of t = nat ((t div 60000000) mod 60)"

definition digit_char :: "nat \<Rightarrow> char" where
  "digit_char d = ''0123456789'' ! (d mod 10)"

definition two_digits :: "nat \<Rightarrow> string" where
  "two_digits n = [digit_char (n div 10), digit_char n]"

text \<open>\<^verbatim>\<open>current_time.strftime('%H:%M')\<close>: hour and minute, each zero-padded to two digits.\<close>

definition strftime_HM :: "datetime \<Rightarrow> string" where
  "strftime_HM t = two_digits (hour_of t) @ '':'' @ two_digits (minute_of t)"

subsection \<open>Recipients\<close>

text \<open>
  \<^verbatim>\<open>active_hours\<close> is an optional dictionary of the shape
  \<^verbatim>\<open>{'start': '09:00', 'end': '17:00'}\<close>: an association list from strings to strings.
\<close>

record AlertRecipient =
  name :: string
  channels :: "AlertChannel list"
  email :: "string option"
  phone :: "string option"
  webhook_url :: "string option"
  slack_channel :: "string option"
  telegram_chat_id :: "string option"
  severity_threshold :: AlertSeverity
  active_hours :: "(string \<times> string) list option"

text \<open>A dictionary subscript \<^verbatim>\<open>d[k]\<close>: \<^verbatim>\<open>KeyError\<close> when the key is missing.\<close>

definition dict_getitem :: "(string \<times> 'v) list \<Rightarrow> string \<Rightarrow> py_error + 'v" where
  "dict_getitem d k = (case map_of d k of None \<Rightarrow> Inl (KeyError k) | Some v \<Rightarrow> Inr v)"

text \<open>
  \<^verbatim>\<open>if self.active_hours:\<close> is false for \<^verbatim>\<open>None\<close> and for the empty dictionary.
  The chained comparison \<^verbatim>\<open>start <= current_hour <= end\<close> reads \<^verbatim>\<open>active_hours['end']\<close>
  only when its first half holds.
\<close>

definition should_receive_alert ::
  "AlertRecipient \<Rightarrow> AlertSeverity \<Rightarrow> datetime \<Rightarrow> py_error + bool" where
  "should_receive_alert self sev current_time =
     (if severity_value sev < severity_value (severity_threshold self) then Inr False
      else
        (case active_hours self of
           None \<Rightarrow> Inr True
         | Some [] \<Rightarrow> Inr True
         | Some (kv # kvs) \<Rightarrow>
             (let current_hour = strftime_HM current_time in
              case dict_getitem (kv # kvs) ''start'' of
                Inl e \<Rightarrow> Inl e
              | Inr start \<Rightarrow>
                  if \<not> start \<le> current_hour then Inr False
                  else
                    (case dict_getitem (kv # kvs) ''end'' of
                       Inl e \<Rightarrow> Inl e
                     | Inr end_hour \<Rightarrow>
                         if \<not> current_hour \<le> end_hour then Inr False else Inr True))))"

subsection \<open>Alerts\<close>

text \<open>
  The values a \<^verbatim>\<open>metadata\<close> dictionary holds: integers, booleans, strings and
  \<^verbatim>\<open>None\<close>. \<^verbatim>\<open>v + 1\<close> is defined on integers and on booleans (\<^verbatim>\<open>True + 1 == 2\<close>)
  and raises \<^verbatim>\<open>TypeError\<close> on a string and on \<^verbatim>\<open>None\<close>.
\<close>

datatype pyval = PyInt int | PyBool bool | PyStr string | PyNone

fun py_add :: "pyval \<Rightarrow> int \<Rightarrow> py_error + pyval" where
  "py_add (PyInt n) k = Inr (PyInt (n + k))"
| "py_add (PyBool b) k = Inr (PyInt ((if b then 1 else 0) + k))"
| "py_add (PyStr _) k = Inl TypeError"
| "py_add PyNone k = Inl TypeError"

record Alert =
  alert_id :: string
  hazard_id :: string
  severity :: AlertSeverity
  title :: string
  message :: string
  timestamp :: datetime
  location :: "(string \<times> pyval) list option"
  image_path :: "string option"
  metadata :: "string \<rightharpoonup> pyval"
  acknowledged :: bool
  acknowledged_by :: "string option"
  acknowledged_at :: "datetime option"

subsection \<open>The manager\<close>

text \<open>
  A channel handler is called with the alert and the recipient. What the model keeps of
  the call is whether it returned (\<open>None\<close>) or raised an \<^verbatim>\<open>Exception\<close> (\<open>Some\<close> of
  its message); the I/O it performs is outside the manager.
\<close>

type_synonym handler = "Alert \<Rightarrow> AlertRecipient \<Rightarrow> string option"

text \<open>
  The state of an \<^verbatim>\<open>AlertManager\<close>. \<open>active_alerts\<close> is the dictionary from alert ids
  to alerts, in insertion order; \<open>alert_queue\<close> is the FIFO queue, head first. The three
  entries of \<^verbatim>\<open>escalation_config\<close> are three fields. Two fields are not attributes of
  the class: \<open>objects\<close>, the store of the \<^verbatim>\<open>Alert\<close> objects, and \<open>timers\<close>, the alert
  ids of the escalation timers that are started and have not fired.
\<close>

record AlertManager =
  recipients :: "AlertRecipient list"
  active_alerts :: "(string \<times> nat) list"
  alert_history :: "nat list"
  alert_queue :: "nat list"
  channel_handlers :: "AlertChannel \<rightharpoonup> handler"
  escalation_enabled :: bool
  escalation_timeout :: timedelta
  max_escalations :: int
  objects :: "nat \<Rightarrow> Alert"
  timers :: "string list"

text \<open>The senders of the class only log or print: they return.\<close>

definition initialize_handlers :: "AlertChannel \<rightharpoonup> handler" where
  "initialize_handlers = (\<lambda>channel. Some (\<lambda>alert recipient. None))"

text \<open>\<^verbatim>\<open>__init__\<close>, over a store of alert objects. \<^verbatim>\<open>timedelta(minutes=5)\<close> is 300 s.\<close>

definition AlertManager_init :: "(nat \<Rightarrow> Alert) \<Rightarrow> AlertManager" where
  "AlertManager_init objs =
     \<lparr>recipients = [], active_alerts = [], alert_history = [], alert_queue = [],
      channel_handlers = initialize_handlers,
      escalation_enabled = True, escalation_timeout = 300000000, max_escalations = 3,
      objects = objs, timers = []\<rparr>"

definition add_recipient :: "AlertManager \<Rightarrow> AlertRecipient \<Rightarrow> AlertManager" where
  "add_recipient s recipient = s\<lparr>recipients := recipients s @ [recipient]\<rparr>"

text \<open>\<^verbatim>\<open>send_alert\<close>, for the alert object at reference \<open>r\<close>.\<close>

definition send_alert :: "AlertManager \<Rightarrow> nat \<Rightarrow> AlertManager" where
  "send_alert s r =
     s\<lparr>active_alerts := AList.update (alert_id (objects s r)) r (active_alerts s),
       alert_queue := alert_queue s @ [r],
       alert_history := alert_history s @ [r]\<rparr>"

subsection \<open>Delivery\<close>

text \<open>
  What one pass of the inner loop of \<^verbatim>\<open>_deliver_alert\<close> does for a channel: the handler
  was called and returned, the handler was called and its exception was caught and logged,
  or there is no handler and a warning was logged.
\<close>

datatype delivery_event =
  Sent AlertChannel AlertRecipient
| Failed AlertChannel AlertRecipient string
| NoHandler AlertChannel AlertRecipient

fun deliver_channels ::
  "(AlertChannel \<rightharpoonup> handler) \<Rightarrow> Alert \<Rightarrow> AlertRecipient \<Rightarrow> AlertChannel list
     \<Rightarrow> delivery_event list" where
  "deliver_channels hs alert recipient [] = []"
| "deliver_channels hs alert recipient (channel # rest) =
     (case hs channel of
        Some h \<Rightarrow>
          (case h alert recipient of
             None \<Rightarrow> Sent channel recipient
           | Some e \<Rightarrow> Failed channel recipient e)
      | None \<Rightarrow> NoHandler channel recipient)
     # deliver_channels hs alert recipient rest"

text \<open>
  The outer loop. \<^verbatim>\<open>should_receive_alert\<close> is called outside the \<^verbatim>\<open>try\<close> block: when
  it raises, the loop ends there and the exception leaves \<^verbatim>\<open>_deliver_alert\<close>.
  The result is the events so far and the exception, if any.
\<close>

fun deliver_recipients ::
  "(AlertChannel \<rightharpoonup> handler) \<Rightarrow> Alert \<Rightarrow> datetime \<Rightarrow> AlertRecipient list
     \<Rightarrow> delivery_event list \<times> py_error option" where
  "deliver_recipients hs alert current_time [] = ([], None)"
| "deliver_recipients hs alert current_time (recipient # rest) =
     (case should_receive_alert recipient (severity alert) current_time of
        Inl e \<Rightarrow> ([], Some e)
      | Inr False \<Rightarrow> deliver_recipients hs alert current_time rest
      | Inr True \<Rightarrow>
          (case deliver_recipients hs alert current_time rest of
             (evs, err) \<Rightarrow> (deliver_channels hs alert recipient (channels recipient) @ evs, err)))"

definition deliver_alert ::
  "AlertManager \<Rightarrow> Alert \<Rightarrow> datetime \<Rightarrow> delivery_event list \<times> py_error option" where
  "deliver_alert s alert now = deliver_recipients (channel_handlers s) alert now (recipients s)"

text \<open>
  One turn of the loop of \<^verbatim>\<open>_process_alerts\<close>. On an empty queue nothing happens.
  Otherwise the head is delivered; an exception of the delivery is caught and logged, and
  then no timer is started.
\<close>

definition process_alerts_step ::
  "AlertManager \<Rightarrow> datetime \<Rightarrow> AlertManager \<times> delivery_event list" where
  "process_alerts_step s now =
     (case alert_queue s of
        [] \<Rightarrow> (s, [])
      | r # q \<Rightarrow>
          (let s1 = s\<lparr>alert_queue := q\<rparr> in
           case deliver_alert s1 (objects s1 r) now of
             (evs, Some e) \<Rightarrow> (s1, evs)
           | (evs, None) \<Rightarrow>
               if escalation_enabled s1
               then (s1\<lparr>timers := timers s1 @ [alert_id (objects s1 r)]\<rparr>, evs)
               else (s1, evs)))"

subsection \<open>Acknowledgement and escalation\<close>

definition acknowledge_alert ::
  "AlertManager \<Rightarrow> string \<Rightarrow> string \<Rightarrow> datetime \<Rightarrow> AlertManager" where
  "acknowledge_alert s aid ack_by now =
     (case map_of (active_alerts s) aid of
        None \<Rightarrow> s
      | Some r \<Rightarrow>
          s\<lparr>objects := (objects s)
               (r := (objects s r)\<lparr>acknowledged := True,
                                   acknowledged_by := Some ack_by,
                                   acknowledged_at := Some now\<rparr>),
            active_alerts := AList.delete aid (active_alerts s)\<rparr>)"

text \<open>
  The same method in the two steps between which another thread can run, since no lock is
  held: lines 308 to 312 (the membership test and the three assignments to the alert) and
  line 317 (\<^verbatim>\<open>del self.active_alerts[alert_id]\<close>, which raises \<^verbatim>\<open>KeyError\<close> when
  the key is gone by then).
\<close>

definition acknowledge_alert_mark ::
  "AlertManager \<Rightarrow> string \<Rightarrow> string \<Rightarrow> datetime \<Rightarrow> AlertManager" where
  "acknowledge_alert_mark s aid ack_by now =
     (case map_of (active_alerts s) aid of
        None \<Rightarrow> s
      | Some r \<Rightarrow>
          s\<lparr>objects := (objects s)
               (r := (objects s r)\<lparr>acknowledged := True,
                                   acknowledged_by := Some ack_by,
                                   acknowledged_at := Some now\<rparr>)\<rparr>)"

definition acknowledge_alert_remove ::
  "AlertManager \<Rightarrow> string \<Rightarrow> AlertManager \<times> py_error option" where
  "acknowledge_alert_remove s aid =
     (case map_of (active_alerts s) aid of
        None \<Rightarrow> (s, Some (KeyError aid))
      | Some r \<Rightarrow> (s\<lparr>active_alerts := AList.delete aid (active_alerts s)\<rparr>, None))"

text \<open>
  \<^verbatim>\<open>_escalate_alert\<close>, statement by statement. \<^verbatim>\<open>AlertSeverity(value + 1)\<close> and the
  addition to the counter may raise; the assignments made before stay.
\<close>

definition escalate_alert :: "AlertManager \<Rightarrow> nat \<Rightarrow> AlertManager \<times> py_error option" where
  "escalate_alert s r =
     (let alert = objects s r in
      case (if severity alert \<noteq> CRITICAL
            then map_sum id (\<lambda>sev. alert\<lparr>severity := sev\<rparr>)
                   (AlertSeverity_of_value (severity_value (severity alert) + 1))
            else Inr alert) of
        Inl e \<Rightarrow> (s, Some e)
      | Inr alert1 \<Rightarrow>
          (let alert2 = alert1\<lparr>metadata := (metadata alert1)(''escalated'' \<mapsto> PyBool True)\<rparr> in
           case py_add (case metadata alert2 ''escalation_count'' of
                          None \<Rightarrow> PyInt 0 | Some v \<Rightarrow> v) 1 of
             Inl e \<Rightarrow> (s\<lparr>objects := (objects s)(r := alert2)\<rparr>, Some e)
           | Inr count \<Rightarrow>
               (s\<lparr>objects := (objects s)
                     (r := alert2\<lparr>metadata := (metadata alert2)(''escalation_count'' \<mapsto> count)\<rparr>),
                   alert_queue := alert_queue s @ [r]\<rparr>, None)))"

definition check_escalation ::
  "AlertManager \<Rightarrow> string \<Rightarrow> datetime \<Rightarrow> AlertManager \<times> py_error option" where
  "check_escalation s aid now =
     (case map_of (active_alerts s) aid of
        None \<Rightarrow> (s, None)
      | Some r \<Rightarrow>
          (let alert = objects s r;
               time_since_alert = now - timestamp alert
           in if time_since_alert \<ge> escalation_timeout s
              then escalate_alert s r
              else (s, None)))"

subsection \<open>Queries\<close>

definition get_active_alerts :: "AlertManager \<Rightarrow> AlertSeverity option \<Rightarrow> Alert list" where
  "get_active_alerts s sev =
     (let alerts = map (\<lambda>(k, r). objects s r) (active_alerts s) in
      case sev of
        None \<Rightarrow> alerts
      | Some v \<Rightarrow> filter (\<lambda>a. severity a = v) alerts)"

text \<open>
  \<^verbatim>\<open>total_seconds() / 60\<close>, the sum and the final quotient are floating-point
  operations in the source; the model computes them in the reals, without rounding.
\<close>

definition total_seconds :: "timedelta \<Rightarrow> real" where
  "total_seconds d = real_of_int d / 1000000"

text \<open>The loop of \<^verbatim>\<open>_calculate_avg_ack_time\<close>, with the list it appends to.\<close>

fun collect_ack_times :: "Alert list \<Rightarrow> real list \<Rightarrow> real list" where
  "collect_ack_times [] ack_times = ack_times"
| "collect_ack_times (alert # rest) ack_times =
     (case (acknowledged alert, acknowledged_at alert) of
        (True, Some ack_at) \<Rightarrow>
          collect_ack_times rest (ack_times @ [total_seconds (ack_at - timestamp alert) / 60])
      | _ \<Rightarrow> collect_ack_times rest ack_times)"

definition calculate_avg_ack_time :: "AlertManager \<Rightarrow> real" where
  "calculate_avg_ack_time s =
     (let ack_times = collect_ack_times (map (objects s) (alert_history s)) [] in
      if ack_times \<noteq> [] then sum_list ack_times / real (length ack_times) else 0)"

record alert_statistics =
  total_alerts :: nat
  n_active_alerts :: nat
  acknowledged_alerts :: nat
  by_severity :: "(string \<times> nat) list"
  average_acknowledgment_time :: real

definition get_alert_statistics :: "AlertManager \<Rightarrow> alert_statistics" where
  "get_alert_statistics s =
     \<lparr>total_alerts = length (alert_history s),
      n_active_alerts = length (active_alerts s),
      acknowledged_alerts =
        length (filter (\<lambda>r. acknowledged (objects s r)) (alert_history s)),
      by_severity =
        map (\<lambda>sev. (severity_name sev,
                     length (filter (\<lambda>r. severity (objects s r) = sev) (alert_history s))))
          [LOW, MEDIUM, HIGH, CRITICAL],
      average_acknowledgment_time = calculate_avg_ack_time s\<rparr>"

subsection \<open>Runs of the manager\<close>

text \<open>
  The events that change a manager: the public methods, a turn of the worker, and the
  firing of the \<open>i\<close>-th pending escalation timer, which calls \<^verbatim>\<open>_check_escalation\<close>
  with the alert id it was started with (an exception ends the timer's thread only).
\<close>

datatype event =
  AddRecipient AlertRecipient
| SendAlert nat
| AcknowledgeAlert string string datetime
| ProcessNext datetime
| TimerFires nat datetime

fun apply_event :: "AlertManager \<Rightarrow> event \<Rightarrow> AlertManager" where
  "apply_event s (AddRecipient recipient) = add_recipient s recipient"
| "apply_event s (SendAlert r) = send_alert s r"
| "apply_event s (AcknowledgeAlert aid ack_by now) = acknowledge_alert s aid ack_by now"
| "apply_event s (ProcessNext now) = fst (process_alerts_step s now)"
| "apply_event s (TimerFires i now) =
     (if i < length (timers s)
      then fst (check_escalation
                  (s\<lparr>timers := take i (timers s) @ drop (Suc i) (timers s)\<rparr>)
                  (timers s ! i) now)
      else s)"

fun run :: "AlertManager \<Rightarrow> event list \<Rightarrow> AlertManager" where
  "run s [] = s"
| "run s (e # es) = run (apply_event s e) es"

subsection \<open>Properties of states\<close>

text \<open>
  Three properties of a manager state: every key of the active dictionary is the id of the
  alert stored under it; every active alert is in the history; no active alert is marked
  acknowledged.
\<close>

definition keys_are_ids :: "AlertManager \<Rightarrow> bool" where
  "keys_are_ids s \<longleftrightarrow> (\<forall>(k, r) \<in> set (active_alerts s). alert_id (objects s r) = k)"

definition active_in_history :: "AlertManager \<Rightarrow> bool" where
  "active_in_history s \<longleftrightarrow> snd ` set (active_alerts s) \<subseteq> set (alert_history s)"

definition active_unacknowledged :: "AlertManager \<Rightarrow> bool" where
  "active_unacknowledged s \<longleftrightarrow> (\<forall>(k, r) \<in> set (active_alerts s). \<not> acknowledged (objects s r))"

text \<open>
  A run in which \<^verbatim>\<open>send_alert\<close> is only ever called with an alert that is not
  marked acknowledged at that moment.
\<close>

fun sends_unacknowledged :: "AlertManager \<Rightarrow> event list \<Rightarrow> bool" where
  "sends_unacknowledged s [] = True"
| "sends_unacknowledged s (e # es) =
     ((case e of SendAlert r \<Rightarrow> \<not> acknowledged (objects s r) | _ \<Rightarrow> True)
      \<and> sends_unacknowledged (apply_event s e) es)"

subsection \<open>Notions of the specification\<close>

text \<open>
  The definitions of this subsection are not translations of the source: they say what the
  specification means by its words, and the theorems compare the source with them.

  ``One level up'': the next severity, \<^verbatim>\<open>CRITICAL\<close> staying where it is.
\<close>

fun spec_one_level_up :: "AlertSeverity \<Rightarrow> AlertSeverity" where
  "spec_one_level_up LOW = MEDIUM"
| "spec_one_level_up MEDIUM = HIGH"
| "spec_one_level_up HIGH = CRITICAL"
| "spec_one_level_up CRITICAL = CRITICAL"

text \<open>
  The escalation counter of an alert, read as \<^verbatim>\<open>metadata.get('escalation_count', 0)\<close>
  reads it; \<open>None\<close> when the entry is not a number.
\<close>

definition spec_escalation_count :: "Alert \<Rightarrow> int option" where
  "spec_escalation_count alert =
     (case metadata alert ''escalation_count'' of
        None \<Rightarrow> Some 0
      | Some (PyInt n) \<Rightarrow> Some n
      | Some (PyBool b) \<Rightarrow> Some (if b then 1 else 0)
      | Some _ \<Rightarrow> None)"

text \<open>An alert after one escalation, when its counter was \<open>n\<close>.\<close>

definition spec_escalated :: "Alert \<Rightarrow> int \<Rightarrow> Alert" where
  "spec_escalated alert n =
     alert\<lparr>severity := spec_one_level_up (severity alert),
           metadata := (metadata alert)(''escalated'' \<mapsto> PyBool True,
                                        ''escalation_count'' \<mapsto> PyInt (n + 1))\<rparr>"

text \<open>
  What one (recipient, channel) pair yields when it is attempted on its own, and the
  attempts for all eligible recipients of a list, each with all its channels, in order.
  \<open>check_returns\<close> says that the eligibility check of a recipient does not raise.
\<close>

fun event_recipient :: "delivery_event \<Rightarrow> AlertRecipient" where
  "event_recipient (Sent channel recipient) = recipient"
| "event_recipient (Failed channel recipient e) = recipient"
| "event_recipient (NoHandler channel recipient) = recipient"

definition spec_attempt ::
  "(AlertChannel \<rightharpoonup> handler) \<Rightarrow> Alert \<Rightarrow> AlertRecipient \<Rightarrow> AlertChannel \<Rightarrow> delivery_event" where
  "spec_attempt hs alert recipient channel =
     (case hs channel of
        None \<Rightarrow> NoHandler channel recipient
      | Some h \<Rightarrow>
          (case h alert recipient of
             None \<Rightarrow> Sent channel recipient
           | Some e \<Rightarrow> Failed channel recipient e))"

definition spec_eligible :: "Alert \<Rightarrow> datetime \<Rightarrow> AlertRecipient \<Rightarrow> bool" where
  "spec_eligible alert now recipient \<longleftrightarrow>
     should_receive_alert recipient (severity alert) now = Inr True"

definition check_returns :: "Alert \<Rightarrow> datetime \<Rightarrow> AlertRecipient \<Rightarrow> bool" where
  "check_returns alert now recipient \<longleftrightarrow>
     \<not> isl (should_receive_alert recipient (severity alert) now)"

definition spec_independent_attempts ::
  "(AlertChannel \<rightharpoonup> handler) \<Rightarrow> Alert \<Rightarrow> datetime \<Rightarrow> AlertRecipient list
     \<Rightarrow> delivery_event list" where
  "spec_independent_attempts hs alert now rs =
     concat (map (\<lambda>recipient. map (spec_attempt hs alert recipient) (channels recipient))
               (filter (spec_eligible alert now) rs))"

text \<open>The acknowledgement latency of an alert, in minutes.\<close>

definition spec_ack_minutes :: "Alert \<Rightarrow> real" where
  "spec_ack_minutes alert =
     (case acknowledged_at alert of
        None \<Rightarrow> 0
      | Some t \<Rightarrow> real_of_int (t - timestamp alert) / 60000000)"

subsection \<open>Example data\<close>

definition example_alert :: Alert where
  "example_alert =
     \<lparr>alert_id = ''TEST-001'', hazard_id = ''HAZ-001'', severity = HIGH,
      title = ''Fire Detected'', message = ''A fire has been detected in Building A'',
      timestamp = 0, location = None, image_path = None, metadata = Map.empty,
      acknowledged = False, acknowledged_by = None, acknowledged_at = None\<rparr>"

definition example_objects :: "nat \<Rightarrow> Alert" where
  "example_objects = (\<lambda>r. example_alert\<lparr>alert_id := ''TEST-002''\<rparr>)(0 := example_alert)"

definition night_guard :: AlertRecipient where
  "night_guard =
     \<lparr>name = ''Night Guard'', channels = [CONSOLE], email = None, phone = None,
      webhook_url = None, slack_channel = None, telegram_chat_id = None,
      severity_threshold = LOW,
      active_hours = Some [(''start'', ''22:00''), (''end'', ''06:00'')]\<rparr>"

definition escalation_objects :: "nat \<Rightarrow> Alert" where
  "escalation_objects =
     (\<lambda>r. example_alert\<lparr>alert_id := ''TEST-002''\<rparr>)
       (0 := example_alert\<lparr>metadata := [''escalated'' \<mapsto> PyBool True,
                                           ''escalation_count'' \<mapsto> PyInt 7]\<rparr>,
        1 := example_alert\<lparr>alert_id := ''TEST-003'', timestamp := 900000000\<rparr>,
        2 := example_alert\<lparr>alert_id := ''TEST-004'', severity := CRITICAL\<rparr>)"

definition awaiting_escalation :: AlertManager where
  "awaiting_escalation =
     run (AlertManager_init escalation_objects)
       [SendAlert 0, SendAlert 1, SendAlert 2,
        ProcessNext 1000000, ProcessNext 1000001, ProcessNext 1000002]"

definition day_operator :: AlertRecipient where
  "day_operator =
     \<lparr>name = ''Test User'', channels = [CONSOLE, EMAIL, SMS],
      email = Some ''test@example.com'', phone = None,
      webhook_url = None, slack_channel = None, telegram_chat_id = None,
      severity_threshold = MEDIUM,
      active_hours = Some [(''start'', ''09:00''), (''end'', ''17:00'')]\<rparr>"

definition site_manager :: AlertRecipient where
  "site_manager =
     \<lparr>name = ''Site Manager'', channels = [PAGERDUTY],
      email = None, phone = None,
      webhook_url = None, slack_channel = None, telegram_chat_id = None,
      severity_threshold = CRITICAL, active_hours = None\<rparr>"

definition on_call :: AlertRecipient where
  "on_call =
     \<lparr>name = ''On Call'', channels = [SLACK],
      email = None, phone = None,
      webhook_url = None, slack_channel = Some ''#hazard-alerts'', telegram_chat_id = None,
      severity_threshold = LOW, active_hours = None\<rparr>"

definition failing_handlers :: "AlertChannel \<rightharpoonup> handler" where
  "failing_handlers =
     initialize_handlers
       (EMAIL \<mapsto> (\<lambda>alert recipient. Some ''SMTP connection refused''), SMS := None)"

definition delivering :: AlertManager where
  "delivering =
     run ((AlertManager_init example_objects)\<lparr>channel_handlers := failing_handlers\<rparr>)
       [AddRecipient day_operator, AddRecipient site_manager, AddRecipient on_call]"

definition statistics_objects :: "nat \<Rightarrow> Alert" where
  "statistics_objects =
     (\<lambda>r. example_alert\<lparr>alert_id := ''TEST-002''\<rparr>)
       (0 := example_alert\<lparr>alert_id := ''STAT-1'', timestamp := 0\<rparr>,
        1 := example_alert\<lparr>alert_id := ''STAT-2'', timestamp := 10000000\<rparr>,
        2 := example_alert\<lparr>alert_id := ''STAT-3'', timestamp := 20000000\<rparr>)"

definition two_of_three_acknowledged :: AlertManager where
  "two_of_three_acknowledged =
     run (AlertManager_init statistics_objects)
       [SendAlert 0, SendAlert 1, SendAlert 2,
        AcknowledgeAlert ''STAT-1'' ''operator'' 120000000,
        AcknowledgeAlert ''STAT-2'' ''operator'' 250000000]"

definition one_sent :: AlertManager where
  "one_sent = run (AlertManager_init example_objects) [SendAlert 2, ProcessNext 1000000]"

definition acknowledging :: AlertManager where
  "acknowledging = acknowledge_alert_mark one_sent ''TEST-002'' ''operator'' 301000000"

section \<open>Auxiliary facts\<close>

lemma set_update_subset: "set (AList.update k v al) \<subseteq> insert (k, v) (set al)"
  by (induction al) auto

lemma set_delete_subset: "set (AList.delete k al) \<subseteq> set al"
  by (auto simp: AList.delete_eq)

lemma escalate_alert_active [simp]: "active_alerts (fst (escalate_alert s r)) = active_alerts s"
  by (auto simp: escalate_alert_def Let_def split: sum.splits)

lemma escalate_alert_history [simp]: "alert_history (fst (escalate_alert s r)) = alert_history s"
  by (auto simp: escalate_alert_def Let_def split: sum.splits)

lemma escalate_alert_alert_id [simp]:
  "alert_id (objects (fst (escalate_alert s r)) r') = alert_id (objects s r')"
  by (auto simp: escalate_alert_def Let_def map_sum_def split: sum.splits)

lemma escalate_alert_acknowledged [simp]:
  "acknowledged (objects (fst (escalate_alert s r)) r') = acknowledged (objects s r')"
  by (auto simp: escalate_alert_def Let_def map_sum_def split: sum.splits)

lemma check_escalation_active [simp]: "active_alerts (fst (check_escalation s aid now)) = active_alerts s"
  by (auto simp: check_escalation_def Let_def split: option.splits)

lemma check_escalation_history [simp]: "alert_history (fst (check_escalation s aid now)) = alert_history s"
  by (auto simp: check_escalation_def Let_def split: option.splits)

lemma check_escalation_alert_id [simp]:
  "alert_id (objects (fst (check_escalation s aid now)) r') = alert_id (objects s r')"
  by (auto simp: check_escalation_def Let_def split: option.splits)

lemma check_escalation_acknowledged [simp]:
  "acknowledged (objects (fst (check_escalation s aid now)) r') = acknowledged (objects s r')"
  by (auto simp: check_escalation_def Let_def split: option.splits)

lemma process_alerts_step_frame [simp]:
  "active_alerts (fst (process_alerts_step s now)) = active_alerts s"
  "alert_history (fst (process_alerts_step s now)) = alert_history s"
  "objects (fst (process_alerts_step s now)) = objects s"
  by (auto simp: process_alerts_step_def Let_def split: list.splits prod.splits option.splits)

lemma apply_event_alert_id [simp]:
  "alert_id (objects (apply_event s e) r) = alert_id (objects s r)"
  by (cases e) (auto simp: add_recipient_def send_alert_def acknowledge_alert_def split: option.splits)

lemma keys_are_ids_apply_event: "keys_are_ids s \<Longrightarrow> keys_are_ids (apply_event s e)"
proof (cases e)
  case (SendAlert r)
  assume "keys_are_ids s"
  then show ?thesis
    using set_update_subset [of "alert_id (objects s r)" r "active_alerts s"]
    unfolding SendAlert keys_are_ids_def by (auto simp: send_alert_def)
next
  case (AcknowledgeAlert aid ack_by now)
  assume "keys_are_ids s"
  then show ?thesis
    using set_delete_subset [of aid "active_alerts s"]
    unfolding AcknowledgeAlert keys_are_ids_def
    by (auto simp: acknowledge_alert_def split: option.splits)
qed (auto simp: keys_are_ids_def add_recipient_def)

lemma active_in_history_apply_event: "active_in_history s \<Longrightarrow> active_in_history (apply_event s e)"
proof (cases e)
  case (SendAlert r)
  assume "active_in_history s"
  then show ?thesis
    using set_update_subset [of "alert_id (objects s r)" r "active_alerts s"]
    unfolding SendAlert active_in_history_def by (fastforce simp: send_alert_def)
next
  case (AcknowledgeAlert aid ack_by now)
  assume "active_in_history s"
  then show ?thesis
    using set_delete_subset [of aid "active_alerts s"]
    unfolding AcknowledgeAlert active_in_history_def
    by (fastforce simp: acknowledge_alert_def split: option.splits)
qed (auto simp: active_in_history_def add_recipient_def)

lemma keys_are_ids_run: "keys_are_ids s \<Longrightarrow> keys_are_ids (run s es)"
  by (induction es arbitrary: s) (auto simp: keys_are_ids_apply_event)

lemma active_in_history_run: "active_in_history s \<Longrightarrow> active_in_history (run s es)"
  by (induction es arbitrary: s) (auto simp: active_in_history_apply_event)

lemma update_fresh_key: "k \<notin> fst ` set al \<Longrightarrow> AList.update k v al = al @ [(k, v)]"
  by (induction al) auto

lemma active_unacknowledged_apply_event:
  assumes "keys_are_ids s" and "active_unacknowledged s"
    and "case e of SendAlert r \<Rightarrow> \<not> acknowledged (objects s r) | _ \<Rightarrow> True"
  shows "active_unacknowledged (apply_event s e)"
proof (cases e)
  case (SendAlert r)
  then show ?thesis
    using assms set_update_subset [of "alert_id (objects s r)" r "active_alerts s"]
    unfolding active_unacknowledged_def by (auto simp: send_alert_def)
next
  case (AcknowledgeAlert aid ack_by now)
  show ?thesis
  proof (cases "map_of (active_alerts s) aid")
    case None
    then show ?thesis using assms(2) by (simp add: AcknowledgeAlert acknowledge_alert_def)
  next
    case (Some r)
    have "\<not> acknowledged (objects (apply_event s e) r')"
      if "(k, r') \<in> set (AList.delete aid (active_alerts s))" for k r'
    proof -
      from that have mem: "(k, r') \<in> set (active_alerts s)" and "k \<noteq> aid"
        by (auto simp: AList.delete_eq)
      from Some have "(aid, r) \<in> set (active_alerts s)" by (rule map_of_SomeD)
      with assms(1) have "alert_id (objects s r) = aid"
        unfolding keys_are_ids_def by blast
      moreover from assms(1) mem have "alert_id (objects s r') = k"
        unfolding keys_are_ids_def by blast
      ultimately have "r' \<noteq> r" using \<open>k \<noteq> aid\<close> by auto
      moreover from assms(2) mem have "\<not> acknowledged (objects s r')"
        unfolding active_unacknowledged_def by blast
      ultimately show ?thesis
        by (simp add: AcknowledgeAlert acknowledge_alert_def Some)
    qed
    moreover have "active_alerts (apply_event s e) = AList.delete aid (active_alerts s)"
      by (simp add: AcknowledgeAlert acknowledge_alert_def Some)
    ultimately show ?thesis
      unfolding active_unacknowledged_def by auto
  qed
qed (use assms(2) in \<open>auto simp: active_unacknowledged_def add_recipient_def\<close>)

lemma active_unacknowledged_run:
  "keys_are_ids s \<Longrightarrow> active_unacknowledged s \<Longrightarrow> sends_unacknowledged s es
     \<Longrightarrow> active_unacknowledged (run s es)"
proof (induction es arbitrary: s)
  case Nil
  then show ?case by simp
next
  case (Cons e es)
  from Cons.prems have "active_unacknowledged (apply_event s e)"
    by (intro active_unacknowledged_apply_event) auto
  with Cons show ?case
    by (auto simp: keys_are_ids_apply_event)
qed

lemma severity_update_same: "severity a = v \<Longrightarrow> a\<lparr>severity := v\<rparr> = a"
  by (cases a) simp

lemma escalate_alert_counted:
  assumes "spec_escalation_count (objects s r) = Some n"
  shows "escalate_alert s r =
     (s\<lparr>objects := (objects s)(r := spec_escalated (objects s r) n),
        alert_queue := alert_queue s @ [r]\<rparr>, None)"
proof -
  obtain v where v: "(case metadata (objects s r) ''escalation_count'' of None \<Rightarrow> PyInt 0 | Some v \<Rightarrow> v) = v"
    by simp
  have add: "py_add v 1 = Inr (PyInt (n + 1))"
    using assms v unfolding spec_escalation_count_def
    by (auto split: option.splits pyval.splits)
  show ?thesis
    using add v
    by (cases "severity (objects s r)")
      (simp_all add: escalate_alert_def spec_escalated_def Let_def AlertSeverity_of_value_def
        severity_update_same)
qed

lemma escalate_alert_severity:
  "severity (objects (fst (escalate_alert s r)) r) = spec_one_level_up (severity (objects s r))"
  by (cases "severity (objects s r)")
    (auto simp: escalate_alert_def Let_def AlertSeverity_of_value_def split: sum.splits)

lemma awaiting_escalation_eq:
  "awaiting_escalation =
     (AlertManager_init escalation_objects)
       \<lparr>active_alerts := [(''TEST-001'', 0), (''TEST-003'', 1), (''TEST-004'', 2)],
        alert_history := [0, 1, 2],
        timers := [''TEST-001'', ''TEST-003'', ''TEST-004'']\<rparr>"
  by (simp add: awaiting_escalation_def AlertManager_init_def escalation_objects_def
      example_alert_def send_alert_def process_alerts_step_def deliver_alert_def)

lemma deliver_channels_attempts:
  "deliver_channels hs alert recipient cs = map (spec_attempt hs alert recipient) cs"
  by (induction cs) (auto simp: spec_attempt_def split: option.splits)

lemma deliver_recipients_events:
  "fst (deliver_recipients hs alert now rs) =
     spec_independent_attempts hs alert now (takeWhile (check_returns alert now) rs)"
proof (induction rs)
  case Nil
  then show ?case by (simp add: spec_independent_attempts_def)
next
  case (Cons recipient rs)
  show ?case
  proof (cases "should_receive_alert recipient (severity alert) now")
    case (Inl e)
    then show ?thesis by (simp add: spec_independent_attempts_def check_returns_def)
  next
    case (Inr b)
    with Cons show ?thesis
      by (cases b)
        (auto simp: spec_independent_attempts_def check_returns_def spec_eligible_def
          deliver_channels_attempts split: prod.splits)
  qed
qed

lemma deliver_recipients_error:
  "snd (deliver_recipients hs alert now rs) =
     (case dropWhile (check_returns alert now) rs of
        [] \<Rightarrow> None
      | recipient # _ \<Rightarrow> Some (projl (should_receive_alert recipient (severity alert) now)))"
proof (induction rs)
  case Nil
  then show ?case by simp
next
  case (Cons recipient rs)
  show ?case
  proof (cases "should_receive_alert recipient (severity alert) now")
    case (Inl e)
    then show ?thesis by (simp add: check_returns_def)
  next
    case (Inr b)
    with Cons show ?thesis
      by (cases b) (auto simp: check_returns_def split: prod.splits)
  qed
qed

lemma should_receive_alert_threshold:
  "should_receive_alert recipient sev now = Inr True
     \<Longrightarrow> severity_value (severity_threshold recipient) \<le> severity_value sev"
  by (auto simp: should_receive_alert_def split: if_splits)

lemma independent_attempts_recipient:
  "ev \<in> set (spec_independent_attempts hs alert now rs)
     \<Longrightarrow> spec_eligible alert now (event_recipient ev) \<and> event_recipient ev \<in> set rs"
  by (auto simp: spec_independent_attempts_def spec_attempt_def split: option.splits)

lemma strftime_HM_ten: "strftime_HM 36000000000 = ''10:00''"
  by (simp add: strftime_HM_def two_digits_def digit_char_def hour_of_def minute_of_def)

lemma should_receive_alert_window:
  assumes "\<not> severity_value sev < severity_value (severity_threshold self)"
    and "active_hours self = Some (kv # kvs)"
  shows "should_receive_alert self sev now = Inr True \<longleftrightarrow>
      (\<exists>start end_hour. map_of (kv # kvs) ''start'' = Some start
          \<and> map_of (kv # kvs) ''end'' = Some end_hour
          \<and> start \<le> strftime_HM now \<and> strftime_HM now \<le> end_hour)"
proof (cases "map_of (kv # kvs) ''start''")
  case None
  then show ?thesis
    using assms by (simp add: should_receive_alert_def dict_getitem_def Let_def del: map_of.simps)
next
  case start: (Some start)
  show ?thesis
  proof (cases "map_of (kv # kvs) ''end''")
    case None
    then show ?thesis
      using assms start
      by (simp add: should_receive_alert_def dict_getitem_def Let_def del: map_of.simps)
  next
    case (Some end_hour)
    then show ?thesis
      using assms start
      by (simp add: should_receive_alert_def dict_getitem_def Let_def del: map_of.simps)
  qed
qed

lemma collect_ack_times_filter:
  "collect_ack_times alerts ack_times =
     ack_times @ map spec_ack_minutes
       (filter (\<lambda>a. acknowledged a \<and> acknowledged_at a \<noteq> None) alerts)"
  by (induction alerts arbitrary: ack_times)
    (auto simp: spec_ack_minutes_def total_seconds_def split: option.splits bool.splits)

lemma calculate_avg_ack_time_filter:
  "calculate_avg_ack_time s =
     (let timed = filter (\<lambda>a. acknowledged a \<and> acknowledged_at a \<noteq> None)
                    (map (objects s) (alert_history s))
      in if timed = [] then 0 else sum_list (map spec_ack_minutes timed) / real (length timed))"
  by (simp add: calculate_avg_ack_time_def collect_ack_times_filter Let_def)

lemma one_sent_eq:
  "one_sent = (AlertManager_init example_objects)
      \<lparr>active_alerts := [(''TEST-002'', 2)], alert_history := [2], timers := [''TEST-002'']\<rparr>"
  by (simp add: one_sent_def AlertManager_init_def example_objects_def example_alert_def
      send_alert_def process_alerts_step_def deliver_alert_def)

lemma acknowledge_alert_steps:
  "acknowledge_alert s aid ack_by now =
     (case map_of (active_alerts s) aid of
        None \<Rightarrow> s
      | Some r \<Rightarrow> fst (acknowledge_alert_remove (acknowledge_alert_mark s aid ack_by now) aid))"
  by (simp add: acknowledge_alert_def acknowledge_alert_mark_def acknowledge_alert_remove_def
      split: option.splits)

lemma acknowledging_eq:
  "acknowledging = one_sent
     \<lparr>objects := (objects one_sent)
        (2 := (objects one_sent 2)\<lparr>acknowledged := True,
                                   acknowledged_by := Some ''operator'',
                                   acknowledged_at := Some 301000000\<rparr>)\<rparr>"
  by (simp add: acknowledging_def acknowledge_alert_mark_def one_sent_eq)

section \<open>Eligibility of a recipient\<close>

text \<open>
  C9: a recipient whose active-hours window has a start that is lexically greater than
  its end (a window that wraps midnight) receives no alert: for every severity and every
  current time \<^verbatim>\<open>should_receive_alert\<close> returns \<^verbatim>\<open>False\<close>.
\<close>

theorem wrapping_window_never_matches:
  assumes "active_hours self = Some w"
    and "map_of w ''start'' = Some start"
    and "map_of w ''end'' = Some end_hour"
    and "end_hour < start"
  shows "should_receive_alert self sev current_time = Inr False"
proof -
  from assms(2) obtain kv kvs where w: "w = kv # kvs"
    by (cases w) auto
  have "\<not> (start \<le> strftime_HM current_time \<and> strftime_HM current_time \<le> end_hour)"
    using assms(4) by auto
  then show ?thesis
    using assms(1-3) unfolding w should_receive_alert_def dict_getitem_def
    by (auto simp: Let_def)
qed

theorem wrapping_window_never_matches_witness:
  "active_hours night_guard = Some [(''start'', ''22:00''), (''end'', ''06:00'')]
   \<and> map_of [(''start'', ''22:00''), (''end'', ''06:00'')] ''start'' = Some ''22:00''
   \<and> map_of [(''start'', ''22:00''), (''end'', ''06:00'')] ''end'' = Some ''06:00''
   \<and> ''06:00'' < ''22:00''
   \<and> should_receive_alert night_guard CRITICAL 83400000000 = Inr False"
  using wrapping_window_never_matches
    [of night_guard "[(''start'', ''22:00''), (''end'', ''06:00'')]" "''22:00''" "''06:00''"
       CRITICAL 83400000000]
  by (simp add: night_guard_def)

section \<open>The active set and acknowledgement\<close>

text \<open>
  When every method runs to completion, no alert of the active dictionary is marked
  acknowledged: this holds in every state reached from a manager with no active alert by a
  run in which \<^verbatim>\<open>send_alert\<close> is only given alerts that are not marked acknowledged at
  that moment, and in such a state \<^verbatim>\<open>acknowledge_alert\<close> on an active id sets the
  three acknowledgement fields and leaves the alert under no key of the active dictionary.
\<close>

lemma active_alerts_unacknowledged_sequentially:
  assumes "active_alerts s0 = []" and "sends_unacknowledged s0 es"
  shows "(\<forall>(k, r) \<in> set (active_alerts (run s0 es)). \<not> acknowledged (objects (run s0 es) r))
    \<and> (\<forall>aid r ack_by now. map_of (active_alerts (run s0 es)) aid = Some r \<longrightarrow>
          acknowledged (objects (acknowledge_alert (run s0 es) aid ack_by now) r)
        \<and> acknowledged_by (objects (acknowledge_alert (run s0 es) aid ack_by now) r) = Some ack_by
        \<and> acknowledged_at (objects (acknowledge_alert (run s0 es) aid ack_by now) r) = Some now
        \<and> r \<notin> snd ` set (active_alerts (acknowledge_alert (run s0 es) aid ack_by now))
        \<and> map_of (active_alerts (acknowledge_alert (run s0 es) aid ack_by now)) aid = None)"
proof -
  define s where "s = run s0 es"
  have k0: "keys_are_ids s0" and u0: "active_unacknowledged s0"
    using assms(1) by (simp_all add: keys_are_ids_def active_unacknowledged_def)
  have k: "keys_are_ids s"
    unfolding s_def using k0 by (rule keys_are_ids_run)
  have u: "active_unacknowledged s"
    unfolding s_def using k0 u0 assms(2) by (rule active_unacknowledged_run)
  have ack: "acknowledged (objects (acknowledge_alert s aid ack_by now) r)
        \<and> acknowledged_by (objects (acknowledge_alert s aid ack_by now) r) = Some ack_by
        \<and> acknowledged_at (objects (acknowledge_alert s aid ack_by now) r) = Some now
        \<and> r \<notin> snd ` set (active_alerts (acknowledge_alert s aid ack_by now))
        \<and> map_of (active_alerts (acknowledge_alert s aid ack_by now)) aid = None"
    if m: "map_of (active_alerts s) aid = Some r" for aid r ack_by now
  proof -
    from m have "(aid, r) \<in> set (active_alerts s)" by (rule map_of_SomeD)
    with k have id: "alert_id (objects s r) = aid"
      unfolding keys_are_ids_def by blast
    have "k = aid" if "(k, r) \<in> set (active_alerts s)" for k
      using k that id unfolding keys_are_ids_def by blast
    then have "r \<notin> snd ` set (AList.delete aid (active_alerts s))"
      by (auto simp: AList.delete_eq)
    then show ?thesis
      using m by (simp add: acknowledge_alert_def AList.delete_conv')
  qed
  from u ack show ?thesis
    unfolding s_def [symmetric] active_unacknowledged_def by blast
qed

text \<open>
  C3: the claim is that no state is reachable in which an alert is both in the active set
  and marked acknowledged, \<^verbatim>\<open>acknowledge_alert\<close> marking and removing in one operation.
  The source marks the alert (line 310) before it removes it (line 317) and holds no lock.
  An alert is sent and delivered, and its timer is started. While a caller is between
  the two halves of \<^verbatim>\<open>acknowledge_alert\<close>, the alert is active and marked acknowledged,
  and \<^verbatim>\<open>get_active_alerts\<close> returns it. The timer that fires then finds the id active
  and escalates the acknowledged alert: \<^verbatim>\<open>HIGH\<close> becomes \<^verbatim>\<open>CRITICAL\<close>, the escalation
  count is 1 and the alert is queued again. It stays in the queue when the caller has
  removed it from the active set.
\<close>

theorem acknowledged_alert_escalated:
  "timers one_sent = [''TEST-002'']
   \<and> \<not> acknowledged (objects one_sent 2)
   \<and> severity (objects one_sent 2) = HIGH
   \<and> map_of (active_alerts acknowledging) ''TEST-002'' = Some 2
   \<and> acknowledged (objects acknowledging 2)
   \<and> get_active_alerts acknowledging None = [objects acknowledging 2]
   \<and> acknowledged (objects (apply_event acknowledging (TimerFires 0 301000000)) 2)
   \<and> severity (objects (apply_event acknowledging (TimerFires 0 301000000)) 2) = CRITICAL
   \<and> metadata (objects (apply_event acknowledging (TimerFires 0 301000000)) 2)
        ''escalation_count'' = Some (PyInt 1)
   \<and> alert_queue (apply_event acknowledging (TimerFires 0 301000000)) = [2]
   \<and> active_alerts (fst (acknowledge_alert_remove
        (apply_event acknowledging (TimerFires 0 301000000)) ''TEST-002'')) = []
   \<and> alert_queue (fst (acknowledge_alert_remove
        (apply_event acknowledging (TimerFires 0 301000000)) ''TEST-002'')) = [2]"
proof -
  have a: "timers one_sent = [''TEST-002'']
     \<and> \<not> acknowledged (objects one_sent 2)
     \<and> severity (objects one_sent 2) = HIGH"
    by (simp add: one_sent_eq AlertManager_init_def example_objects_def example_alert_def)
  have b: "map_of (active_alerts acknowledging) ''TEST-002'' = Some 2
     \<and> acknowledged (objects acknowledging 2)
     \<and> get_active_alerts acknowledging None = [objects acknowledging 2]"
    by (simp add: acknowledging_eq one_sent_eq get_active_alerts_def)
  have c: "spec_escalation_count (objects acknowledging 2) = Some 0
     \<and> timestamp (objects acknowledging 2) = 0
     \<and> escalation_timeout acknowledging = 300000000
     \<and> severity (objects acknowledging 2) = HIGH
     \<and> alert_queue acknowledging = []
     \<and> timers acknowledging = [''TEST-002'']
     \<and> active_alerts acknowledging = [(''TEST-002'', 2)]"
    by (simp add: acknowledging_eq one_sent_eq AlertManager_init_def example_objects_def
        example_alert_def spec_escalation_count_def)
  have d: "apply_event acknowledging (TimerFires 0 301000000) =
      acknowledging\<lparr>timers := [],
        objects := (objects acknowledging)(2 := spec_escalated (objects acknowledging 2) 0),
        alert_queue := [2]\<rparr>"
    using c by (simp add: check_escalation_def escalate_alert_counted)
  show ?thesis
    unfolding d using a b c by (simp add: spec_escalated_def acknowledge_alert_remove_def)
qed

text \<open>
  C6: \<^verbatim>\<open>acknowledge_alert\<close> with an id that is not a key of the active dictionary
  changes nothing: the manager (active dictionary, history, queue, every stored alert) is
  the same afterwards, and so are the statistics. The function has no branch that raises.
\<close>

theorem acknowledge_inactive_noop:
  assumes "aid \<notin> fst ` set (active_alerts s)"
  shows "acknowledge_alert s aid ack_by now = s
    \<and> get_alert_statistics (acknowledge_alert s aid ack_by now) = get_alert_statistics s"
proof -
  from assms have "map_of (active_alerts s) aid = None"
    by (simp add: map_of_eq_None_iff)
  then show ?thesis by (simp add: acknowledge_alert_def)
qed

theorem acknowledge_inactive_noop_witness:
  "''TEST-009'' \<notin> fst ` set (active_alerts awaiting_escalation)
   \<and> acknowledge_alert awaiting_escalation ''TEST-009'' ''operator'' 5000000 = awaiting_escalation
   \<and> get_alert_statistics (acknowledge_alert awaiting_escalation ''TEST-009'' ''operator'' 5000000)
       = get_alert_statistics awaiting_escalation
   \<and> total_alerts (get_alert_statistics awaiting_escalation) = 3"
proof -
  have a: "''TEST-009'' \<notin> fst ` set (active_alerts awaiting_escalation)"
    by (simp add: awaiting_escalation_eq)
  have b: "total_alerts (get_alert_statistics awaiting_escalation) = 3"
    by (simp add: awaiting_escalation_eq get_alert_statistics_def)
  from acknowledge_inactive_noop [OF a] a b show ?thesis by simp
qed

section \<open>Escalation\<close>

text \<open>
  C1, as amended: when the escalation timer fires for an alert id, nothing changes if the
  id is not active, and nothing changes if the id is active but less than the configured
  timeout has passed since the alert's timestamp. If the id is active and the timeout has
  passed, then (the escalation counter being absent or a number \<open>n\<close>) the severity goes
  one level up, \<^verbatim>\<open>CRITICAL\<close> staying, \<^verbatim>\<open>metadata['escalated']\<close> is \<^verbatim>\<open>True\<close>,
  \<^verbatim>\<open>metadata['escalation_count']\<close> is \<open>n + 1\<close> and the alert is appended to the
  queue, whatever \<open>n\<close> and \<^verbatim>\<open>max_escalations\<close> are: the result does not depend on
  \<^verbatim>\<open>max_escalations\<close>.
\<close>

theorem check_escalation_cases:
  "(aid \<notin> fst ` set (active_alerts s) \<longrightarrow> check_escalation s aid now = (s, None))
   \<and> (map_of (active_alerts s) aid = Some r
        \<and> now - timestamp (objects s r) < escalation_timeout s
        \<longrightarrow> check_escalation s aid now = (s, None))
   \<and> (map_of (active_alerts s) aid = Some r
        \<and> escalation_timeout s \<le> now - timestamp (objects s r)
        \<and> spec_escalation_count (objects s r) = Some n
        \<longrightarrow> check_escalation s aid now =
              (s\<lparr>objects := (objects s)(r := spec_escalated (objects s r) n),
                 alert_queue := alert_queue s @ [r]\<rparr>, None))
   \<and> check_escalation (s\<lparr>max_escalations := m\<rparr>) aid now =
        ((fst (check_escalation s aid now))\<lparr>max_escalations := m\<rparr>,
         snd (check_escalation s aid now))"
proof -
  have "check_escalation s aid now = (s, None)" if "aid \<notin> fst ` set (active_alerts s)"
  proof -
    from that have "map_of (active_alerts s) aid = None"
      by (simp add: map_of_eq_None_iff)
    then show ?thesis by (simp add: check_escalation_def)
  qed
  moreover have "check_escalation s aid now = (s, None)"
    if "map_of (active_alerts s) aid = Some r"
      and "now - timestamp (objects s r) < escalation_timeout s"
    using that by (simp add: check_escalation_def)
  moreover have "check_escalation s aid now =
              (s\<lparr>objects := (objects s)(r := spec_escalated (objects s r) n),
                 alert_queue := alert_queue s @ [r]\<rparr>, None)"
    if "map_of (active_alerts s) aid = Some r"
      and "escalation_timeout s \<le> now - timestamp (objects s r)"
      and "spec_escalation_count (objects s r) = Some n"
    using that by (simp add: check_escalation_def escalate_alert_counted)
  moreover have "check_escalation (s\<lparr>max_escalations := m\<rparr>) aid now =
        ((fst (check_escalation s aid now))\<lparr>max_escalations := m\<rparr>,
         snd (check_escalation s aid now))"
    by (auto simp: check_escalation_def escalate_alert_def Let_def
        split: option.splits sum.splits)
  ultimately show ?thesis by blast
qed

text \<open>
  The claim without the timeout fails: an alert whose timestamp lies 15 minutes ahead is
  delivered at second 1, its timer fires 5 minutes later, and nothing is escalated.
\<close>

theorem timer_before_timeout_counterexample:
  "map_of (active_alerts awaiting_escalation) ''TEST-003'' = Some 1
   \<and> timers awaiting_escalation ! 1 = ''TEST-003''
   \<and> severity (objects awaiting_escalation 1) = HIGH
   \<and> check_escalation awaiting_escalation ''TEST-003'' 301000001 = (awaiting_escalation, None)"
  by (simp add: awaiting_escalation_eq check_escalation_def AlertManager_init_def
      escalation_objects_def example_alert_def)

theorem check_escalation_cases_witness:
  "''TEST-009'' \<notin> fst ` set (active_alerts awaiting_escalation)
   \<and> check_escalation awaiting_escalation ''TEST-009'' 301000000 = (awaiting_escalation, None)
   \<and> map_of (active_alerts awaiting_escalation) ''TEST-003'' = Some 1
   \<and> 301000001 - timestamp (objects awaiting_escalation 1) < escalation_timeout awaiting_escalation
   \<and> check_escalation awaiting_escalation ''TEST-003'' 301000001 = (awaiting_escalation, None)
   \<and> map_of (active_alerts awaiting_escalation) ''TEST-001'' = Some 0
   \<and> escalation_timeout awaiting_escalation \<le> 301000000 - timestamp (objects awaiting_escalation 0)
   \<and> spec_escalation_count (objects awaiting_escalation 0) = Some 7
   \<and> max_escalations awaiting_escalation = 3
   \<and> severity (objects (fst (check_escalation awaiting_escalation ''TEST-001'' 301000000)) 0) = CRITICAL
   \<and> metadata (objects (fst (check_escalation awaiting_escalation ''TEST-001'' 301000000)) 0)
        ''escalation_count'' = Some (PyInt 8)
   \<and> metadata (objects (fst (check_escalation awaiting_escalation ''TEST-001'' 301000000)) 0)
        ''escalated'' = Some (PyBool True)
   \<and> alert_queue (fst (check_escalation awaiting_escalation ''TEST-001'' 301000000)) = [0]
   \<and> snd (check_escalation awaiting_escalation ''TEST-001'' 301000000) = None"
proof -
  have a: "''TEST-009'' \<notin> fst ` set (active_alerts awaiting_escalation)"
    by (simp add: awaiting_escalation_eq)
  have b: "map_of (active_alerts awaiting_escalation) ''TEST-003'' = Some 1
     \<and> 301000001 - timestamp (objects awaiting_escalation 1) < escalation_timeout awaiting_escalation"
    by (simp add: awaiting_escalation_eq AlertManager_init_def escalation_objects_def
        example_alert_def)
  have c: "map_of (active_alerts awaiting_escalation) ''TEST-001'' = Some 0
     \<and> escalation_timeout awaiting_escalation \<le> 301000000 - timestamp (objects awaiting_escalation 0)
     \<and> spec_escalation_count (objects awaiting_escalation 0) = Some 7"
    by (simp add: awaiting_escalation_eq AlertManager_init_def escalation_objects_def
        example_alert_def spec_escalation_count_def)
  have d: "max_escalations awaiting_escalation = 3
     \<and> severity (objects awaiting_escalation 0) = HIGH
     \<and> alert_queue awaiting_escalation = []"
    by (simp add: awaiting_escalation_eq AlertManager_init_def escalation_objects_def
        example_alert_def)
  from a check_escalation_cases [of "''TEST-009''" awaiting_escalation 301000000]
  have e1: "check_escalation awaiting_escalation ''TEST-009'' 301000000 = (awaiting_escalation, None)"
    by blast
  from b check_escalation_cases [of "''TEST-003''" awaiting_escalation 301000001 1]
  have e2: "check_escalation awaiting_escalation ''TEST-003'' 301000001 = (awaiting_escalation, None)"
    by blast
  from c check_escalation_cases [of "''TEST-001''" awaiting_escalation 301000000 0 7]
  have e3: "check_escalation awaiting_escalation ''TEST-001'' 301000000 =
      (awaiting_escalation\<lparr>objects := (objects awaiting_escalation)
           (0 := spec_escalated (objects awaiting_escalation 0) 7),
         alert_queue := alert_queue awaiting_escalation @ [0]\<rparr>, None)"
    by blast
  show ?thesis
    using a b c d e1 e2 by (simp add: e3 spec_escalated_def)
qed

text \<open>
  C5: escalating an alert at \<^verbatim>\<open>CRITICAL\<close> leaves it at \<^verbatim>\<open>CRITICAL\<close> and still adds
  one to the escalation counter (absent or a number); escalating an alert below
  \<^verbatim>\<open>CRITICAL\<close> raises the severity by exactly one level. So the new level is the
  old one plus one, capped at 4.
\<close>

theorem escalation_saturates:
  "(severity (objects s r) = CRITICAL \<and> spec_escalation_count (objects s r) = Some n
      \<longrightarrow> snd (escalate_alert s r) = None
        \<and> severity (objects (fst (escalate_alert s r)) r) = CRITICAL
        \<and> metadata (objects (fst (escalate_alert s r)) r) ''escalation_count'' = Some (PyInt (n + 1)))
   \<and> (severity (objects s r) \<noteq> CRITICAL
      \<longrightarrow> severity_value (severity (objects (fst (escalate_alert s r)) r))
          = severity_value (severity (objects s r)) + 1)
   \<and> severity_value (severity (objects (fst (escalate_alert s r)) r))
       = min 4 (severity_value (severity (objects s r)) + 1)"
proof -
  have sev: "severity (objects (fst (escalate_alert s r)) r) = spec_one_level_up (severity (objects s r))"
    by (rule escalate_alert_severity)
  have "snd (escalate_alert s r) = None
        \<and> metadata (objects (fst (escalate_alert s r)) r) ''escalation_count'' = Some (PyInt (n + 1))"
    if "spec_escalation_count (objects s r) = Some n"
    using that by (simp add: escalate_alert_counted spec_escalated_def)
  then show ?thesis
    unfolding sev by (cases "severity (objects s r)") simp_all
qed

theorem escalation_saturates_witness:
  "severity (objects awaiting_escalation 2) = CRITICAL
   \<and> spec_escalation_count (objects awaiting_escalation 2) = Some 0
   \<and> snd (escalate_alert awaiting_escalation 2) = None
   \<and> severity (objects (fst (escalate_alert awaiting_escalation 2)) 2) = CRITICAL
   \<and> metadata (objects (fst (escalate_alert awaiting_escalation 2)) 2) ''escalation_count''
       = Some (PyInt 1)
   \<and> severity (objects awaiting_escalation 0) = HIGH
   \<and> severity (objects (fst (escalate_alert awaiting_escalation 0)) 0) = CRITICAL"
proof -
  have a: "severity (objects awaiting_escalation 2) = CRITICAL
     \<and> spec_escalation_count (objects awaiting_escalation 2) = Some 0"
    by (simp add: awaiting_escalation_eq AlertManager_init_def escalation_objects_def
        example_alert_def spec_escalation_count_def)
  have b: "severity (objects awaiting_escalation 0) = HIGH"
    by (simp add: awaiting_escalation_eq AlertManager_init_def escalation_objects_def
        example_alert_def)
  from b have v: "severity_value (severity (objects (fst (escalate_alert awaiting_escalation 0)) 0)) = 4"
    using escalation_saturates [of awaiting_escalation 0 0] by simp
  have c: "severity (objects (fst (escalate_alert awaiting_escalation 0)) 0) = CRITICAL"
    using v by (cases "severity (objects (fst (escalate_alert awaiting_escalation 0)) 0)") simp_all
  show ?thesis
    using a b c escalation_saturates [of awaiting_escalation 2 0] by simp
qed

text \<open>
  C10: \<^verbatim>\<open>_escalate_alert\<close> leaves the history, the active dictionary, the recipients
  and every other alert as they are; of the escalated alert only the severity and the
  metadata may differ; when it returns, which it does when the counter is absent or a
  number, the alert is appended to the queue. The counts \<^verbatim>\<open>total_alerts\<close> and
  \<^verbatim>\<open>active_alerts\<close> of the statistics are unchanged.
\<close>

theorem escalate_alert_frame:
  "alert_history (fst (escalate_alert s r)) = alert_history s
   \<and> active_alerts (fst (escalate_alert s r)) = active_alerts s
   \<and> recipients (fst (escalate_alert s r)) = recipients s
   \<and> timers (fst (escalate_alert s r)) = timers s
   \<and> (\<forall>r'. r' \<noteq> r \<longrightarrow> objects (fst (escalate_alert s r)) r' = objects s r')
   \<and> objects (fst (escalate_alert s r)) r =
       (objects s r)\<lparr>severity := severity (objects (fst (escalate_alert s r)) r),
                     metadata := metadata (objects (fst (escalate_alert s r)) r)\<rparr>
   \<and> (snd (escalate_alert s r) = None \<longrightarrow> alert_queue (fst (escalate_alert s r)) = alert_queue s @ [r])
   \<and> (spec_escalation_count (objects s r) \<noteq> None \<longrightarrow> snd (escalate_alert s r) = None)
   \<and> total_alerts (get_alert_statistics (fst (escalate_alert s r)))
       = total_alerts (get_alert_statistics s)
   \<and> n_active_alerts (get_alert_statistics (fst (escalate_alert s r)))
       = n_active_alerts (get_alert_statistics s)"
proof -
  have 1: "\<forall>r'. r' \<noteq> r \<longrightarrow> objects (fst (escalate_alert s r)) r' = objects s r'"
    by (auto simp: escalate_alert_def Let_def split: sum.splits)
  have 2: "objects (fst (escalate_alert s r)) r =
       (objects s r)\<lparr>severity := severity (objects (fst (escalate_alert s r)) r),
                     metadata := metadata (objects (fst (escalate_alert s r)) r)\<rparr>"
    by (auto simp: escalate_alert_def Let_def map_sum_def severity_update_same
        split: sum.splits)
  have 3: "snd (escalate_alert s r) = None \<longrightarrow> alert_queue (fst (escalate_alert s r)) = alert_queue s @ [r]"
    by (auto simp: escalate_alert_def Let_def split: sum.splits)
  have 4: "spec_escalation_count (objects s r) \<noteq> None \<longrightarrow> snd (escalate_alert s r) = None"
    by (auto simp: escalate_alert_counted)
  have 5: "recipients (fst (escalate_alert s r)) = recipients s"
    "timers (fst (escalate_alert s r)) = timers s"
    by (auto simp: escalate_alert_def Let_def split: sum.splits)
  show ?thesis
    using 1 2 3 4 5 by (simp add: get_alert_statistics_def)
qed

theorem escalate_alert_frame_witness:
  "spec_escalation_count (objects awaiting_escalation 0) \<noteq> None
   \<and> objects (fst (escalate_alert awaiting_escalation 0)) 1 = objects awaiting_escalation 1
   \<and> alert_queue (fst (escalate_alert awaiting_escalation 0)) = alert_queue awaiting_escalation @ [0]
   \<and> alert_history (fst (escalate_alert awaiting_escalation 0)) = [0, 1, 2]
   \<and> total_alerts (get_alert_statistics (fst (escalate_alert awaiting_escalation 0))) = 3
   \<and> n_active_alerts (get_alert_statistics (fst (escalate_alert awaiting_escalation 0))) = 3"
proof -
  have a: "spec_escalation_count (objects awaiting_escalation 0) \<noteq> None"
    by (simp add: awaiting_escalation_eq AlertManager_init_def escalation_objects_def
        example_alert_def spec_escalation_count_def)
  have b: "alert_history awaiting_escalation = [0, 1, 2]
      \<and> total_alerts (get_alert_statistics awaiting_escalation) = 3
      \<and> n_active_alerts (get_alert_statistics awaiting_escalation) = 3"
    by (simp add: awaiting_escalation_eq get_alert_statistics_def)
  have c: "(1::nat) \<noteq> 0" by simp
  from escalate_alert_frame [of awaiting_escalation 0] a b c show ?thesis
    by metis
qed

section \<open>Delivery\<close>

text \<open>
  C7: \<^verbatim>\<open>_deliver_alert\<close> attempts every (eligible recipient, channel) pair on its own:
  its events are exactly the independent attempts, in order, a missing handler and a
  raising handler each being one event that stops nothing. The exception that may leave
  \<^verbatim>\<open>_deliver_alert\<close> is never a sender's: it is the same whatever the handlers are, and
  there is none when every eligibility check returns.
\<close>

theorem deliver_alert_isolates_failures:
  "fst (deliver_alert s alert now) =
     spec_independent_attempts (channel_handlers s) alert now
       (takeWhile (check_returns alert now) (recipients s))
   \<and> (snd (deliver_alert s alert now) = None
        \<longleftrightarrow> (\<forall>recipient \<in> set (recipients s). check_returns alert now recipient))
   \<and> ((\<forall>recipient \<in> set (recipients s). check_returns alert now recipient)
        \<longrightarrow> deliver_alert s alert now =
              (spec_independent_attempts (channel_handlers s) alert now (recipients s), None))
   \<and> snd (deliver_alert (s\<lparr>channel_handlers := hs\<rparr>) alert now) = snd (deliver_alert s alert now)"
proof -
  let ?P = "check_returns alert now"
  have ev: "fst (deliver_alert s alert now) =
     spec_independent_attempts (channel_handlers s) alert now (takeWhile ?P (recipients s))"
    by (simp add: deliver_alert_def deliver_recipients_events)
  have err: "snd (deliver_alert s' alert now) =
     (case dropWhile ?P (recipients s') of
        [] \<Rightarrow> None
      | recipient # _ \<Rightarrow> Some (projl (should_receive_alert recipient (severity alert) now)))"
    for s'
    by (simp add: deliver_alert_def deliver_recipients_error)
  have none: "snd (deliver_alert s alert now) = None \<longleftrightarrow> (\<forall>recipient \<in> set (recipients s). ?P recipient)"
  proof (cases "dropWhile ?P (recipients s)")
    case Nil
    then have "\<forall>recipient \<in> set (recipients s). ?P recipient"
      by (simp add: dropWhile_eq_Nil_conv)
    then show ?thesis
      unfolding err Nil by simp
  next
    case (Cons recipient rest)
    then have "dropWhile ?P (recipients s) \<noteq> []" by simp
    then have "\<not> (\<forall>recipient \<in> set (recipients s). ?P recipient)"
      by (simp add: dropWhile_eq_Nil_conv)
    with Cons show ?thesis
      unfolding err by simp
  qed
  have all: "deliver_alert s alert now =
       (spec_independent_attempts (channel_handlers s) alert now (recipients s), None)"
    if "\<forall>recipient \<in> set (recipients s). ?P recipient"
  proof -
    from that have "takeWhile ?P (recipients s) = recipients s"
      by (simp add: takeWhile_eq_all_conv)
    with ev none that show ?thesis
      by (simp add: prod_eq_iff)
  qed
  have indep: "snd (deliver_alert (s\<lparr>channel_handlers := hs\<rparr>) alert now) = snd (deliver_alert s alert now)"
    unfolding err by simp
  from ev none all indep show ?thesis by blast
qed

theorem deliver_alert_isolates_failures_witness:
  "recipients delivering = [day_operator, site_manager, on_call]
   \<and> check_returns example_alert 36000000000 day_operator
   \<and> check_returns example_alert 36000000000 site_manager
   \<and> check_returns example_alert 36000000000 on_call
   \<and> deliver_alert delivering example_alert 36000000000 =
       ([Sent CONSOLE day_operator,
         Failed EMAIL day_operator ''SMTP connection refused'',
         NoHandler SMS day_operator,
         Sent SLACK on_call], None)"
proof -
  have r: "recipients delivering = [day_operator, site_manager, on_call]"
    and h: "channel_handlers delivering = failing_handlers"
    by (simp_all add: delivering_def AlertManager_init_def add_recipient_def)
  have s: "should_receive_alert day_operator HIGH 36000000000 = Inr True"
      "should_receive_alert site_manager HIGH 36000000000 = Inr False"
      "should_receive_alert on_call HIGH 36000000000 = Inr True"
    by (simp_all add: should_receive_alert_def day_operator_def site_manager_def on_call_def
        dict_getitem_def strftime_HM_ten)
  have e: "severity example_alert = HIGH"
    by (simp add: example_alert_def)
  have c: "check_returns example_alert 36000000000 day_operator"
      "check_returns example_alert 36000000000 site_manager"
      "check_returns example_alert 36000000000 on_call"
    by (simp_all add: check_returns_def e s)
  have "\<forall>recipient \<in> set (recipients delivering). check_returns example_alert 36000000000 recipient"
    by (simp add: r c)
  with deliver_alert_isolates_failures [of delivering example_alert 36000000000]
  have "deliver_alert delivering example_alert 36000000000 =
      (spec_independent_attempts (channel_handlers delivering) example_alert 36000000000
         (recipients delivering), None)"
    by blast
  moreover have "spec_independent_attempts failing_handlers example_alert 36000000000
         [day_operator, site_manager, on_call] =
       [Sent CONSOLE day_operator,
         Failed EMAIL day_operator ''SMTP connection refused'',
         NoHandler SMS day_operator,
         Sent SLACK on_call]"
  proof -
    have "channels day_operator = [CONSOLE, EMAIL, SMS]" "channels on_call = [SLACK]"
      by (simp_all add: day_operator_def on_call_def)
    then show ?thesis
      by (simp add: spec_independent_attempts_def spec_eligible_def e s spec_attempt_def failing_handlers_def
          initialize_handlers_def)
  qed
  ultimately show ?thesis
    using r c by (simp add: h)
qed

text \<open>
  C2: \<^verbatim>\<open>should_receive_alert\<close> returns \<^verbatim>\<open>True\<close> if and only if the severity is at
  least the recipient's threshold and either the recipient has no active-hours window
  (\<^verbatim>\<open>None\<close> or an empty dictionary) or the time, formatted as zero-padded \<^verbatim>\<open>HH:MM\<close>,
  lies lexically between the window's start and end, both included. Consequently every
  event of a delivery, be it a handler call or a missing handler, concerns a recipient
  whose threshold does not exceed the alert's severity.
\<close>

theorem eligibility_rule:
  "(should_receive_alert self sev now = Inr True \<longleftrightarrow>
      severity_value (severity_threshold self) \<le> severity_value sev
      \<and> (active_hours self = None \<or> active_hours self = Some []
          \<or> (\<exists>w start end_hour.
                active_hours self = Some w
                \<and> map_of w ''start'' = Some start \<and> map_of w ''end'' = Some end_hour
                \<and> start \<le> strftime_HM now \<and> strftime_HM now \<le> end_hour)))
   \<and> (\<forall>ev \<in> set (fst (deliver_alert s alert t)).
         severity_value (severity_threshold (event_recipient ev))
           \<le> severity_value (severity alert))"
proof -
  let ?window = "\<lambda>w. \<exists>start end_hour.
                map_of w ''start'' = Some start \<and> map_of w ''end'' = Some end_hour
                \<and> start \<le> strftime_HM now \<and> strftime_HM now \<le> end_hour"
  have rule: "should_receive_alert self sev now = Inr True \<longleftrightarrow>
      severity_value (severity_threshold self) \<le> severity_value sev
      \<and> (active_hours self = None \<or> active_hours self = Some []
          \<or> (\<exists>w. active_hours self = Some w \<and> ?window w))"
  proof (cases "severity_value sev < severity_value (severity_threshold self)")
    case True
    then show ?thesis by (simp add: should_receive_alert_def)
  next
    case False
    show ?thesis
    proof (cases "active_hours self")
      case None
      with False show ?thesis by (simp add: should_receive_alert_def)
    next
      case (Some w)
      show ?thesis
      proof (cases w)
        case Nil
        with False Some show ?thesis by (simp add: should_receive_alert_def)
      next
        case (Cons kv kvs)
        from False Some have "should_receive_alert self sev now = Inr True \<longleftrightarrow> ?window w"
          unfolding Cons by (rule should_receive_alert_window)
        moreover have "severity_value (severity_threshold self) \<le> severity_value sev"
          using False by simp
        moreover have "active_hours self \<noteq> None" "active_hours self \<noteq> Some []"
          using Some Cons by simp_all
        moreover have "(\<exists>w'. active_hours self = Some w' \<and> ?window w') \<longleftrightarrow> ?window w"
          using Some by simp
        ultimately show ?thesis by argo
      qed
    qed
  qed
  have "severity_value (severity_threshold (event_recipient ev)) \<le> severity_value (severity alert)"
    if "ev \<in> set (fst (deliver_alert s alert t))" for ev
  proof -
    from that have "spec_eligible alert t (event_recipient ev)"
      unfolding deliver_alert_def deliver_recipients_events
      by (rule independent_attempts_recipient [THEN conjunct1])
    then show ?thesis
      unfolding spec_eligible_def by (rule should_receive_alert_threshold)
  qed
  then have "\<forall>ev \<in> set (fst (deliver_alert s alert t)).
         severity_value (severity_threshold (event_recipient ev))
           \<le> severity_value (severity alert)"
    by (rule ballI)
  with rule show ?thesis by simp
qed


theorem eligibility_rule_witness:
  "should_receive_alert day_operator HIGH 36000000000 = Inr True
   \<and> severity_value (severity_threshold day_operator) \<le> severity_value HIGH
   \<and> active_hours day_operator = Some [(''start'', ''09:00''), (''end'', ''17:00'')]
   \<and> ''09:00'' \<le> strftime_HM 36000000000 \<and> strftime_HM 36000000000 \<le> ''17:00''
   \<and> severity_value (severity example_alert) < severity_value (severity_threshold site_manager)
   \<and> Sent PAGERDUTY site_manager \<notin> set (fst (deliver_alert delivering example_alert 36000000000))"
proof -
  have a: "severity_value (severity_threshold day_operator) \<le> severity_value HIGH"
    by (simp add: day_operator_def)
  have b: "active_hours day_operator = Some [(''start'', ''09:00''), (''end'', ''17:00'')]"
    by (simp add: day_operator_def)
  have c: "map_of [(''start'', ''09:00''), (''end'', ''17:00'')] ''start'' = Some ''09:00''
     \<and> map_of [(''start'', ''09:00''), (''end'', ''17:00'')] ''end'' = Some ''17:00''"
    by simp
  have d: "''09:00'' \<le> strftime_HM 36000000000 \<and> strftime_HM 36000000000 \<le> ''17:00''"
    by (simp add: strftime_HM_ten)
  have e: "severity_value (severity example_alert) < severity_value (severity_threshold site_manager)"
    by (simp add: example_alert_def site_manager_def)
  from a b c d have rhs: "severity_value (severity_threshold day_operator) \<le> severity_value HIGH
      \<and> (active_hours day_operator = None \<or> active_hours day_operator = Some []
          \<or> (\<exists>w start end_hour.
                active_hours day_operator = Some w
                \<and> map_of w ''start'' = Some start \<and> map_of w ''end'' = Some end_hour
                \<and> start \<le> strftime_HM 36000000000 \<and> strftime_HM 36000000000 \<le> end_hour))"
    by blast
  have f: "should_receive_alert day_operator HIGH 36000000000 = Inr True"
    using eligibility_rule [of day_operator HIGH 36000000000 delivering example_alert 36000000000] rhs
    by argo
  have g: "Sent PAGERDUTY site_manager \<notin> set (fst (deliver_alert delivering example_alert 36000000000))"
  proof
    assume m: "Sent PAGERDUTY site_manager \<in> set (fst (deliver_alert delivering example_alert 36000000000))"
    have "\<forall>ev \<in> set (fst (deliver_alert delivering example_alert 36000000000)).
         severity_value (severity_threshold (event_recipient ev))
           \<le> severity_value (severity example_alert)"
      using eligibility_rule [of day_operator HIGH 36000000000 delivering example_alert 36000000000]
      by (rule conjunct2)
    from this m have "severity_value (severity_threshold (event_recipient (Sent PAGERDUTY site_manager)))
           \<le> severity_value (severity example_alert)"
      by (rule bspec)
    with e show False by simp
  qed
  from a b d e f g show ?thesis by simp
qed

section \<open>Statistics\<close>

text \<open>
  C8: in a manager where every acknowledged alert of the history has its acknowledgement
  time, \<^verbatim>\<open>average_acknowledgment_time\<close> is the arithmetic mean, over the acknowledged
  alerts of the history, of \<^verbatim>\<open>acknowledged_at - timestamp\<close> in minutes, and it is 0 when
  there is none; when no alert of the history is acknowledged it is 0, nothing being
  divided. The arithmetic is that of the reals.
\<close>

theorem average_acknowledgment_time_is_mean:
  "((\<forall>r \<in> set (alert_history s).
        acknowledged (objects s r) \<longrightarrow> acknowledged_at (objects s r) \<noteq> None)
      \<longrightarrow> average_acknowledgment_time (get_alert_statistics s) =
            (if acknowledged_alerts (get_alert_statistics s) = 0 then 0
             else (\<Sum>r \<leftarrow> filter (\<lambda>r. acknowledged (objects s r)) (alert_history s).
                     spec_ack_minutes (objects s r))
                  / real (acknowledged_alerts (get_alert_statistics s))))
   \<and> ((\<forall>r \<in> set (alert_history s). \<not> acknowledged (objects s r))
      \<longrightarrow> average_acknowledgment_time (get_alert_statistics s) = 0)"
proof -
  let ?acked = "filter (\<lambda>r. acknowledged (objects s r)) (alert_history s)"
  have mean: "calculate_avg_ack_time s =
      (if length ?acked = 0 then 0
       else (\<Sum>r \<leftarrow> ?acked. spec_ack_minutes (objects s r)) / real (length ?acked))"
    if h: "\<forall>r \<in> set (alert_history s).
        acknowledged (objects s r) \<longrightarrow> acknowledged_at (objects s r) \<noteq> None"
  proof -
    have "filter (\<lambda>r. acknowledged (objects s r) \<and> acknowledged_at (objects s r) \<noteq> None)
            (alert_history s) = ?acked"
      using h by (intro filter_cong) auto
    then have "filter (\<lambda>a. acknowledged a \<and> acknowledged_at a \<noteq> None)
            (map (objects s) (alert_history s)) = map (objects s) ?acked"
      by (simp add: filter_map comp_def)
    then show ?thesis
      by (simp add: calculate_avg_ack_time_filter Let_def comp_def)
  qed
  have zero: "calculate_avg_ack_time s = 0"
    if h: "\<forall>r \<in> set (alert_history s). \<not> acknowledged (objects s r)"
  proof -
    from h have "filter (\<lambda>a. acknowledged a \<and> acknowledged_at a \<noteq> None)
            (map (objects s) (alert_history s)) = []"
      by (auto simp: filter_empty_conv)
    then show ?thesis
      by (simp add: calculate_avg_ack_time_filter)
  qed
  from mean zero show ?thesis
    by (simp add: get_alert_statistics_def)
qed

theorem average_acknowledgment_time_is_mean_witness:
  "alert_history two_of_three_acknowledged = [0, 1, 2]
   \<and> acknowledged (objects two_of_three_acknowledged 0)
   \<and> spec_ack_minutes (objects two_of_three_acknowledged 0) = 2
   \<and> acknowledged (objects two_of_three_acknowledged 1)
   \<and> spec_ack_minutes (objects two_of_three_acknowledged 1) = 4
   \<and> \<not> acknowledged (objects two_of_three_acknowledged 2)
   \<and> total_alerts (get_alert_statistics two_of_three_acknowledged) = 3
   \<and> acknowledged_alerts (get_alert_statistics two_of_three_acknowledged) = 2
   \<and> average_acknowledgment_time (get_alert_statistics two_of_three_acknowledged) = 3
   \<and> alert_history awaiting_escalation = [0, 1, 2]
   \<and> \<not> acknowledged (objects awaiting_escalation 0)
   \<and> \<not> acknowledged (objects awaiting_escalation 1)
   \<and> \<not> acknowledged (objects awaiting_escalation 2)
   \<and> average_acknowledgment_time (get_alert_statistics awaiting_escalation) = 0"
proof -
  have h: "alert_history two_of_three_acknowledged = [0, 1, 2]"
    by (simp add: two_of_three_acknowledged_def AlertManager_init_def statistics_objects_def
        example_alert_def send_alert_def acknowledge_alert_def)
  have o0: "acknowledged (objects two_of_three_acknowledged 0)
      \<and> acknowledged_at (objects two_of_three_acknowledged 0) = Some 120000000
      \<and> timestamp (objects two_of_three_acknowledged 0) = 0"
    by (simp add: two_of_three_acknowledged_def AlertManager_init_def statistics_objects_def
        example_alert_def send_alert_def acknowledge_alert_def)
  have o1: "acknowledged (objects two_of_three_acknowledged 1)
      \<and> acknowledged_at (objects two_of_three_acknowledged 1) = Some 250000000
      \<and> timestamp (objects two_of_three_acknowledged 1) = 10000000"
    by (simp add: two_of_three_acknowledged_def AlertManager_init_def statistics_objects_def
        example_alert_def send_alert_def acknowledge_alert_def)
  have o2: "\<not> acknowledged (objects two_of_three_acknowledged 2)"
    by (simp add: two_of_three_acknowledged_def AlertManager_init_def statistics_objects_def
        example_alert_def send_alert_def acknowledge_alert_def)
  have m: "spec_ack_minutes (objects two_of_three_acknowledged 0) = 2"
      "spec_ack_minutes (objects two_of_three_acknowledged 1) = 4"
    using o0 o1 by (simp_all add: spec_ack_minutes_def)
  have c: "total_alerts (get_alert_statistics two_of_three_acknowledged) = 3"
      "acknowledged_alerts (get_alert_statistics two_of_three_acknowledged) = 2"
    using o0 o1 o2 by (simp_all add: get_alert_statistics_def h)
  have "\<forall>r \<in> set (alert_history two_of_three_acknowledged).
        acknowledged (objects two_of_three_acknowledged r)
          \<longrightarrow> acknowledged_at (objects two_of_three_acknowledged r) \<noteq> None"
    using o0 o1 o2 by (simp add: h)
  with average_acknowledgment_time_is_mean [of two_of_three_acknowledged]
  have "average_acknowledgment_time (get_alert_statistics two_of_three_acknowledged) =
            (if acknowledged_alerts (get_alert_statistics two_of_three_acknowledged) = 0 then 0
             else (\<Sum>r \<leftarrow> filter (\<lambda>r. acknowledged (objects two_of_three_acknowledged r))
                           (alert_history two_of_three_acknowledged).
                     spec_ack_minutes (objects two_of_three_acknowledged r))
                  / real (acknowledged_alerts (get_alert_statistics two_of_three_acknowledged)))"
    by blast
  moreover have "filter (\<lambda>r. acknowledged (objects two_of_three_acknowledged r))
                           (alert_history two_of_three_acknowledged) = [0, 1]"
    using o0 o1 o2 by (simp add: h)
  moreover have "(\<Sum>r \<leftarrow> [0, 1]. spec_ack_minutes (objects two_of_three_acknowledged r)) = 6"
    using m by simp
  ultimately have avg: "average_acknowledgment_time (get_alert_statistics two_of_three_acknowledged) = 3"
    by (simp add: c)
  have h': "alert_history awaiting_escalation = [0, 1, 2]"
    by (simp add: awaiting_escalation_eq)
  have u: "\<not> acknowledged (objects awaiting_escalation 0)"
      "\<not> acknowledged (objects awaiting_escalation 1)"
      "\<not> acknowledged (objects awaiting_escalation 2)"
    by (simp_all add: awaiting_escalation_eq AlertManager_init_def escalation_objects_def
        example_alert_def)
  then have "\<forall>r \<in> set (alert_history awaiting_escalation).
      \<not> acknowledged (objects awaiting_escalation r)"
    by (simp add: h')
  with average_acknowledgment_time_is_mean [of awaiting_escalation]
  have z: "average_acknowledgment_time (get_alert_statistics awaiting_escalation) = 0"
    by blast
  from h o0 o1 o2 m c avg h' u z show ?thesis by simp
qed

section \<open>Submission followed by acknowledgement\<close>

text \<open>
  C4: in a state reached from a manager with no active alert, after \<^verbatim>\<open>send_alert\<close> of
  an alert whose id no alert of the history has, the alert is in the active dictionary
  exactly once, under its id, and in the history exactly once (as an object and as an
  id); after \<^verbatim>\<open>acknowledge_alert\<close> of that id by an actor, the alert is in no entry of
  the active dictionary, is still in the history exactly once, and is marked acknowledged,
  by that actor, at the time of the call.
\<close>

theorem send_then_acknowledge:
  fixes s0 :: AlertManager and es :: "event list" and r :: nat
    and ack_by :: string and now :: datetime
  defines "s \<equiv> run s0 es"
  defines "aid \<equiv> alert_id (objects s r)"
  defines "s1 \<equiv> send_alert s r"
  defines "s2 \<equiv> acknowledge_alert s1 aid ack_by now"
  assumes empty: "active_alerts s0 = []"
    and fresh: "\<forall>r' \<in> set (alert_history s). alert_id (objects s r') \<noteq> aid"
  shows "map_of (active_alerts s1) aid = Some r
    \<and> length (filter (\<lambda>kv. snd kv = r) (active_alerts s1)) = 1
    \<and> count_list (alert_history s1) r = 1
    \<and> length (filter (\<lambda>r'. alert_id (objects s1 r') = aid) (alert_history s1)) = 1
    \<and> map_of (active_alerts s2) aid = None
    \<and> r \<notin> snd ` set (active_alerts s2)
    \<and> count_list (alert_history s2) r = 1
    \<and> acknowledged (objects s2 r)
    \<and> acknowledged_by (objects s2 r) = Some ack_by
    \<and> acknowledged_at (objects s2 r) = Some now"
proof -
  have k: "keys_are_ids s"
    unfolding s_def by (rule keys_are_ids_run) (simp add: keys_are_ids_def empty)
  have h: "active_in_history s"
    unfolding s_def by (rule active_in_history_run) (simp add: active_in_history_def empty)
  have r_new: "r \<notin> set (alert_history s)"
    using fresh unfolding aid_def by blast
  have val_new: "r \<notin> snd ` set (active_alerts s)"
    using h r_new unfolding active_in_history_def by blast
  have key_new: "aid \<notin> fst ` set (active_alerts s)"
  proof
    assume "aid \<in> fst ` set (active_alerts s)"
    then obtain r' where m: "(aid, r') \<in> set (active_alerts s)" by force
    with k have "alert_id (objects s r') = aid"
      unfolding keys_are_ids_def by blast
    moreover from m h have "r' \<in> set (alert_history s)"
      unfolding active_in_history_def by force
    ultimately show False using fresh by blast
  qed
  have a1: "active_alerts s1 = active_alerts s @ [(aid, r)]"
    unfolding s1_def send_alert_def aid_def [symmetric]
    using key_new by (simp add: update_fresh_key)
  have h1: "alert_history s1 = alert_history s @ [r]"
    by (simp add: s1_def send_alert_def)
  have o1: "objects s1 = objects s"
    by (simp add: s1_def send_alert_def)
  have m1: "map_of (active_alerts s1) aid = Some r"
    unfolding s1_def send_alert_def aid_def by (simp add: AList.update_conv')
  have f0: "filter (\<lambda>kv. snd kv = r) (active_alerts s) = []"
    using val_new by (auto simp: filter_empty_conv)
  have c1: "length (filter (\<lambda>kv. snd kv = r) (active_alerts s1)) = 1"
    by (simp add: a1 f0)
  have n0: "count_list (alert_history s) r = 0"
    using r_new by (simp add: count_list_0_iff)
  have n1: "count_list (alert_history s1) r = 1"
    by (simp add: h1 n0)
  have i0: "filter (\<lambda>r'. alert_id (objects s r') = aid) (alert_history s) = []"
    using fresh by (auto simp: filter_empty_conv)
  have i1: "length (filter (\<lambda>r'. alert_id (objects s1 r') = aid) (alert_history s1)) = 1"
    using i0 by (simp add: h1 o1) (simp add: aid_def)
  have a2: "active_alerts s2 = active_alerts s"
    unfolding s2_def acknowledge_alert_def using key_new
    by (simp add: m1) (force simp: a1 AList.delete_eq filter_id_conv)
  have h2: "alert_history s2 = alert_history s1"
    unfolding s2_def acknowledge_alert_def by (simp add: m1)
  have o2: "acknowledged (objects s2 r) \<and> acknowledged_by (objects s2 r) = Some ack_by
      \<and> acknowledged_at (objects s2 r) = Some now"
    unfolding s2_def acknowledge_alert_def by (simp add: m1)
  have m2: "map_of (active_alerts s2) aid = None"
    using key_new by (simp add: a2 map_of_eq_None_iff)
  from m1 c1 n1 i1 m2 val_new o2 show ?thesis
    by (simp add: a2 h2)
qed

theorem send_then_acknowledge_witness:
  "active_alerts (AlertManager_init example_objects) = []
   \<and> alert_history one_sent = [2]
   \<and> alert_id (objects one_sent 2) \<noteq> alert_id (objects one_sent 0)
   \<and> alert_id (objects one_sent 0) = ''TEST-001''
   \<and> active_alerts (send_alert one_sent 0) = [(''TEST-002'', 2), (''TEST-001'', 0)]
   \<and> count_list (alert_history (send_alert one_sent 0)) 0 = 1
   \<and> map_of (active_alerts
        (acknowledge_alert (send_alert one_sent 0) ''TEST-001'' ''operator'' 60000000))
        ''TEST-001'' = None
   \<and> count_list (alert_history
        (acknowledge_alert (send_alert one_sent 0) ''TEST-001'' ''operator'' 60000000)) 0 = 1
   \<and> acknowledged (objects
        (acknowledge_alert (send_alert one_sent 0) ''TEST-001'' ''operator'' 60000000) 0)
   \<and> acknowledged_by (objects
        (acknowledge_alert (send_alert one_sent 0) ''TEST-001'' ''operator'' 60000000) 0)
       = Some ''operator''
   \<and> acknowledged_at (objects
        (acknowledge_alert (send_alert one_sent 0) ''TEST-001'' ''operator'' 60000000) 0)
       = Some 60000000"
proof -
  have h1: "active_alerts (AlertManager_init example_objects) = []"
    by (simp add: AlertManager_init_def)
  have ids: "alert_id (objects one_sent 0) = ''TEST-001''"
      "alert_id (objects one_sent 2) = ''TEST-002''"
    by (simp_all add: one_sent_eq AlertManager_init_def example_objects_def example_alert_def)
  have hist: "alert_history one_sent = [2]"
    by (simp add: one_sent_eq)
  have h2: "\<forall>r' \<in> set (alert_history
        (run (AlertManager_init example_objects) [SendAlert 2, ProcessNext 1000000])).
      alert_id (objects (run (AlertManager_init example_objects)
          [SendAlert 2, ProcessNext 1000000]) r')
      \<noteq> alert_id (objects (run (AlertManager_init example_objects)
          [SendAlert 2, ProcessNext 1000000]) 0)"
    unfolding one_sent_def [symmetric] by (simp add: hist ids)
  have act: "active_alerts (send_alert one_sent 0) = [(''TEST-002'', 2), (''TEST-001'', 0)]"
    by (simp add: send_alert_def ids) (simp add: one_sent_eq)
  note inst = send_then_acknowledge [OF h1 h2, of "''operator''" 60000000,
      unfolded one_sent_def [symmetric], unfolded ids]
  from inst h1 hist ids act show ?thesis
    by simp
qed

end
